theory Spec2Isabelle
  imports Main "HOL-Library.Word"
begin

section \<open>The beacon client of the relay: \<^verbatim>\<open>beaconclient/prod_beacon_instance.go\<close>\<close>

text \<open>
  Go values are modelled as follows: \<^verbatim>\<open>uint64\<close> is a 64-bit word, \<^verbatim>\<open>string\<close> is a list of
  bytes, a pointer \<^verbatim>\<open>*T\<close> is a \<open>T option\<close> (\<open>None\<close> is \<^verbatim>\<open>nil\<close>, \<open>Some v\<close> points to a cell
  holding \<open>v\<close>), a Go \<^verbatim>\<open>error\<close> result is an \<open>error option\<close> (\<open>None\<close> is \<^verbatim>\<open>nil\<close>), and a pair
  of results \<^verbatim>\<open>(x, err)\<close> is a pair.
\<close>

type_synonym uint64 = "64 word"

text \<open>
  Modelled from the spec: the errors of the fetch layer are values of another file of the
  package. The spec (7) names three kinds: a transport error, an upstream status error
  that carries the status code and the body, and a decode error.
\<close>

datatype error =
    TransportError string
  | UpstreamStatusError int string
  | DecodeError string

text \<open>A function that dereferences a pointer panics when the pointer is nil.\<close>

datatype 'a go = NilPointerDereference | Returns 'a

record ProdBeaconInstance =
  beaconURI :: string

subsection \<open>Formatting and parsing of unsigned decimals\<close>

text \<open>The verb \<^verbatim>\<open>%d\<close> of \<^verbatim>\<open>fmt.Sprintf\<close> on an unsigned integer: its decimal digits.\<close>

definition digit_char :: "nat \<Rightarrow> char" where
  "digit_char d = char_of (48 + d)"

function fmt_d :: "nat \<Rightarrow> string" where
  "fmt_d n = (if n < 10 then [digit_char n] else fmt_d (n div 10) @ [digit_char (n mod 10)])"
  by pat_completeness auto
termination
  by (relation "measure id") auto

declare fmt_d.simps [simp del]

definition is_digit :: "char \<Rightarrow> bool" where
  "is_digit c = (48 \<le> (of_char c :: nat) \<and> (of_char c :: nat) \<le> 57)"

fun parse_digits :: "nat \<Rightarrow> string \<Rightarrow> nat option" where
  "parse_digits acc [] = Some acc"
| "parse_digits acc (c # cs) =
     (if is_digit c then parse_digits (10 * acc + ((of_char c :: nat) - 48)) cs else None)"

text \<open>
  \<^verbatim>\<open>strconv.ParseUint(s, 10, 64)\<close>: a non-empty run of decimal digits whose value fits 64
  bits; no sign, no blanks, no underscores.
\<close>

definition ParseUint :: "string \<Rightarrow> uint64 option" where
  "ParseUint s =
     (if s = [] then None
      else case parse_digits 0 s of
             None \<Rightarrow> None
           | Some n \<Rightarrow> if n < 2 ^ 64 then Some (word_of_nat n) else None)"

subsection \<open>The fetch layer\<close>

text \<open>
  Modelled from the spec: \<^verbatim>\<open>fetchBeacon(method, url, payload, dst) (code, err)\<close> is defined in
  another file of the package. The spec (4.1) says that it performs one request to the
  URL assembled by the caller, decodes the response into the destination supplied by the
  caller, reports a failure as an error and does not retry. The beacon node is a value
  \<open>w\<close>: \<open>respond w k\<close> is the outcome of the \<open>k\<close>-th call of \<^verbatim>\<open>fetchBeacon\<close> (the status code,
  the error and the contents of the destination after the call), and \<open>calls w\<close> is the log
  of the calls so far, each with its method, URL and payload.
\<close>

type_synonym request = "string \<times> string \<times> string option"

record 'd beacon =
  respond :: "nat \<Rightarrow> request \<Rightarrow> 'd \<Rightarrow> int \<times> error option \<times> 'd"
  calls :: "request list"

definition fetchBeacon ::
  "'d beacon \<Rightarrow> string \<Rightarrow> string \<Rightarrow> string option \<Rightarrow> 'd \<Rightarrow> (int \<times> error option \<times> 'd) \<times> 'd beacon" where
  "fetchBeacon w method url payload dst =
     (respond w (length (calls w)) (method, url, payload) dst,
      w\<lparr>calls := calls w @ [(method, url, payload)]\<rparr>)"

definition MethodGet :: string where
  "MethodGet = ''GET''"

subsection \<open>Validators\<close>

record ValidatorResponseValidatorData =
  Pubkey :: string

record ValidatorResponseEntry =
  Index :: uint64
  Balance :: string
  Status :: string
  Validator :: ValidatorResponseValidatorData

record AllValidatorsResponse =
  Data :: "ValidatorResponseEntry list"

definition new_AllValidatorsResponse :: AllValidatorsResponse where
  "new_AllValidatorsResponse = \<lparr>Data = []\<rparr>"

definition fetchAllValidators ::
  "AllValidatorsResponse beacon \<Rightarrow> string \<Rightarrow> uint64
     \<Rightarrow> (AllValidatorsResponse option \<times> error option) \<times> AllValidatorsResponse beacon" where
  "fetchAllValidators w endpoint headSlot =
     (let uri = endpoint @ ''/eth/v1/beacon/states/'' @ fmt_d (unat headSlot)
                  @ ''/validators?status=active,pending'';
          vd = new_AllValidatorsResponse;
          ((code, err, vd'), w') = fetchBeacon w MethodGet uri None vd
      in ((Some vd', err), w'))"

text \<open>
  Modelled from the spec: \<^verbatim>\<open>types.NewPubkeyHex\<close> belongs to the library go-boost-utils. The
  spec (4.4) calls it the normalization of the raw public key to lower-case hex: every
  upper-case ASCII letter is replaced by its lower-case letter.
\<close>

definition to_lower :: "char \<Rightarrow> char" where
  "to_lower c =
     (if 65 \<le> (of_char c :: nat) \<and> (of_char c :: nat) \<le> 90 then char_of ((of_char c :: nat) + 32)
      else c)"

definition NewPubkeyHex :: "string \<Rightarrow> string" where
  "NewPubkeyHex pk = map to_lower pk"

type_synonym validator_set = "string \<rightharpoonup> ValidatorResponseEntry"

definition FetchValidators ::
  "AllValidatorsResponse beacon \<Rightarrow> ProdBeaconInstance \<Rightarrow> uint64
     \<Rightarrow> (validator_set option \<times> error option) go \<times> AllValidatorsResponse beacon" where
  "FetchValidators w c headSlot =
     (let ((vd, err), w') = fetchAllValidators w (beaconURI c) headSlot
      in case err of
           Some e \<Rightarrow> (Returns (None, Some e), w')
         | None \<Rightarrow>
             (case vd of
                None \<Rightarrow> (NilPointerDereference, w')
              | Some r \<Rightarrow>
                  (let newValidatorSet =
                         fold (\<lambda>vs m. m(NewPubkeyHex (Pubkey (Validator vs)) \<mapsto> vs)) (Data r) Map.empty
                   in (Returns (Some newValidatorSet, None), w'))))"

subsection \<open>Sync status\<close>

record SyncStatusPayloadData =
  HeadSlot :: uint64
  IsSyncing :: bool

record SyncStatusPayload =
  sync_Data :: SyncStatusPayloadData

definition new_SyncStatusPayload :: SyncStatusPayload where
  "new_SyncStatusPayload = \<lparr>sync_Data = \<lparr>HeadSlot = 0, IsSyncing = False\<rparr>\<rparr>"

definition SyncStatus ::
  "SyncStatusPayload beacon \<Rightarrow> ProdBeaconInstance
     \<Rightarrow> (SyncStatusPayloadData option \<times> error option) \<times> SyncStatusPayload beacon" where
  "SyncStatus w c =
     (let uri = beaconURI c @ ''/eth/v1/node/syncing'';
          resp = new_SyncStatusPayload;
          ((code, err, resp'), w') = fetchBeacon w MethodGet uri None resp
      in case err of
           Some e \<Rightarrow> ((None, Some e), w')
         | None \<Rightarrow> ((Some (sync_Data resp'), None), w'))"

definition CurrentSlot ::
  "SyncStatusPayload beacon \<Rightarrow> ProdBeaconInstance
     \<Rightarrow> (uint64 \<times> error option) go \<times> SyncStatusPayload beacon" where
  "CurrentSlot w c =
     (let ((syncStatus, err), w') = SyncStatus w c
      in case err of
           Some e \<Rightarrow> (Returns (0, Some e), w')
         | None \<Rightarrow>
             (case syncStatus of
                None \<Rightarrow> (NilPointerDereference, w')
              | Some s \<Rightarrow> (Returns (HeadSlot s, None), w')))"

subsection \<open>The other accessors\<close>

record ProposerDutiesResponseData =
  duty_Pubkey :: string
  duty_Slot :: uint64

record ProposerDutiesResponse =
  duties_Data :: "ProposerDutiesResponseData list"

definition new_ProposerDutiesResponse :: ProposerDutiesResponse where
  "new_ProposerDutiesResponse = \<lparr>duties_Data = []\<rparr>"

definition GetProposerDuties ::
  "ProposerDutiesResponse beacon \<Rightarrow> ProdBeaconInstance \<Rightarrow> uint64
     \<Rightarrow> (ProposerDutiesResponse option \<times> error option) \<times> ProposerDutiesResponse beacon" where
  "GetProposerDuties w c epoch =
     (let uri = beaconURI c @ ''/eth/v1/validator/duties/proposer/'' @ fmt_d (unat epoch);
          resp = new_ProposerDutiesResponse;
          ((code, err, resp'), w') = fetchBeacon w MethodGet uri None resp
      in ((Some resp', err), w'))"

record GetHeaderResponseMessage =
  header_Slot :: uint64
  header_ProposerIndex :: uint64
  header_ParentRoot :: string

record GetHeaderResponse_Header =
  Message :: "GetHeaderResponseMessage option"

record GetHeaderResponse_Data =
  Root :: string
  Header :: GetHeaderResponse_Header

record GetHeaderResponse =
  header_Data :: GetHeaderResponse_Data

definition new_GetHeaderResponse :: GetHeaderResponse where
  "new_GetHeaderResponse = \<lparr>header_Data = \<lparr>Root = [], Header = \<lparr>Message = None\<rparr>\<rparr>\<rparr>"

definition GetHeader ::
  "GetHeaderResponse beacon \<Rightarrow> ProdBeaconInstance
     \<Rightarrow> (GetHeaderResponse option \<times> error option) \<times> GetHeaderResponse beacon" where
  "GetHeader w c =
     (let uri = beaconURI c @ ''/eth/v1/beacon/headers/head'';
          resp = new_GetHeaderResponse;
          ((code, err, resp'), w') = fetchBeacon w MethodGet uri None resp
      in ((Some resp', err), w'))"

definition GetHeaderForSlot ::
  "GetHeaderResponse beacon \<Rightarrow> ProdBeaconInstance \<Rightarrow> uint64
     \<Rightarrow> (GetHeaderResponse option \<times> error option) \<times> GetHeaderResponse beacon" where
  "GetHeaderForSlot w c slot =
     (let uri = beaconURI c @ ''/eth/v1/beacon/headers/'' @ fmt_d (unat slot);
          resp = new_GetHeaderResponse;
          ((code, err, resp'), w') = fetchBeacon w MethodGet uri None resp
      in ((Some resp', err), w'))"

text \<open>
  \<^verbatim>\<open>types.ExecutionPayload\<close> and \<^verbatim>\<open>capella.Withdrawal\<close> are types of other libraries: they are
  type parameters here, and the zero value of the payload is an argument of the
  allocation.
\<close>

record 'ep GetBlockResponse_Body =
  ExecutionPayload :: 'ep

record 'ep GetBlockResponse_Message =
  block_Slot :: uint64
  Body :: "'ep GetBlockResponse_Body"

record 'ep GetBlockResponse_Data =
  block_Message :: "'ep GetBlockResponse_Message"

record 'ep GetBlockResponse =
  block_Data :: "'ep GetBlockResponse_Data"

definition new_GetBlockResponse :: "'ep \<Rightarrow> 'ep GetBlockResponse" where
  "new_GetBlockResponse zero =
     \<lparr>block_Data = \<lparr>block_Message = \<lparr>block_Slot = 0, Body = \<lparr>ExecutionPayload = zero\<rparr>\<rparr>\<rparr>\<rparr>"

definition GetBlock ::
  "'ep GetBlockResponse beacon \<Rightarrow> 'ep \<Rightarrow> ProdBeaconInstance \<Rightarrow> string
     \<Rightarrow> ('ep GetBlockResponse option \<times> error option) \<times> 'ep GetBlockResponse beacon" where
  "GetBlock w zero c blockID =
     (let uri = beaconURI c @ ''/eth/v2/beacon/blocks/'' @ blockID;
          resp = new_GetBlockResponse zero;
          ((code, err, resp'), w') = fetchBeacon w MethodGet uri None resp
      in ((Some resp', err), w'))"

definition GetBlockForSlot ::
  "'ep GetBlockResponse beacon \<Rightarrow> 'ep \<Rightarrow> ProdBeaconInstance \<Rightarrow> uint64
     \<Rightarrow> ('ep GetBlockResponse option \<times> error option) \<times> 'ep GetBlockResponse beacon" where
  "GetBlockForSlot w zero c slot =
     (let uri = beaconURI c @ ''/eth/v2/beacon/blocks/'' @ fmt_d (unat slot);
          resp = new_GetBlockResponse zero;
          ((code, err, resp'), w') = fetchBeacon w MethodGet uri None resp
      in ((Some resp', err), w'))"

record GetGenesisResponse_Data =
  GenesisTime :: uint64
  GenesisValidatorsRoot :: string
  GenesisForkVersion :: string

record GetGenesisResponse =
  genesis_Data :: GetGenesisResponse_Data

definition new_GetGenesisResponse :: GetGenesisResponse where
  "new_GetGenesisResponse =
     \<lparr>genesis_Data = \<lparr>GenesisTime = 0, GenesisValidatorsRoot = [], GenesisForkVersion = []\<rparr>\<rparr>"

definition GetGenesis ::
  "GetGenesisResponse beacon \<Rightarrow> ProdBeaconInstance
     \<Rightarrow> (GetGenesisResponse option \<times> error option) \<times> GetGenesisResponse beacon" where
  "GetGenesis w c =
     (let uri = beaconURI c @ ''/eth/v1/beacon/genesis'';
          resp = new_GetGenesisResponse;
          ((code, err, resp'), w') = fetchBeacon w MethodGet uri None resp
      in ((Some resp', err), w'))"

record GetSpecResponse =
  SecondsPerSlot :: uint64
  DepositContractAddress :: string
  DepositNetworkID :: string
  DomainAggregateAndProof :: string
  InactivityPenaltyQuotient :: string
  InactivityPenaltyQuotientAltair :: string

definition new_GetSpecResponse :: GetSpecResponse where
  "new_GetSpecResponse =
     \<lparr>SecondsPerSlot = 0, DepositContractAddress = [], DepositNetworkID = [],
      DomainAggregateAndProof = [], InactivityPenaltyQuotient = [],
      InactivityPenaltyQuotientAltair = []\<rparr>"

definition GetSpec ::
  "GetSpecResponse beacon \<Rightarrow> ProdBeaconInstance
     \<Rightarrow> (GetSpecResponse option \<times> error option) \<times> GetSpecResponse beacon" where
  "GetSpec w c =
     (let uri = beaconURI c @ ''/eth/v1/config/spec'';
          resp = new_GetSpecResponse;
          ((code, err, resp'), w') = fetchBeacon w MethodGet uri None resp
      in ((Some resp', err), w'))"

record ForkScheduleEntry =
  PreviousVersion :: string
  CurrentVersion :: string
  Epoch :: uint64

record GetForkScheduleResponse =
  forks_Data :: "ForkScheduleEntry list"

definition new_GetForkScheduleResponse :: GetForkScheduleResponse where
  "new_GetForkScheduleResponse = \<lparr>forks_Data = []\<rparr>"

definition GetForkSchedule ::
  "GetForkScheduleResponse beacon \<Rightarrow> ProdBeaconInstance
     \<Rightarrow> (GetForkScheduleResponse option \<times> error option) \<times> GetForkScheduleResponse beacon" where
  "GetForkSchedule w c =
     (let uri = beaconURI c @ ''/eth/v1/config/fork_schedule'';
          resp = new_GetForkScheduleResponse;
          ((code, err, resp'), w') = fetchBeacon w MethodGet uri None resp
      in ((Some resp', err), w'))"

record GetRandaoResponse_Data =
  Randao :: string

record GetRandaoResponse =
  randao_Data :: GetRandaoResponse_Data

definition new_GetRandaoResponse :: GetRandaoResponse where
  "new_GetRandaoResponse = \<lparr>randao_Data = \<lparr>Randao = []\<rparr>\<rparr>"

definition GetRandao ::
  "GetRandaoResponse beacon \<Rightarrow> ProdBeaconInstance \<Rightarrow> uint64
     \<Rightarrow> (GetRandaoResponse option \<times> error option) \<times> GetRandaoResponse beacon" where
  "GetRandao w c slot =
     (let uri = beaconURI c @ ''/eth/v1/beacon/states/'' @ fmt_d (unat slot) @ ''/randao'';
          resp = new_GetRandaoResponse;
          ((code, err, resp'), w') = fetchBeacon w MethodGet uri None resp
      in ((Some resp', err), w'))"

record 'wd GetWithdrawalsResponse_Data =
  Withdrawals :: "'wd option list"

record 'wd GetWithdrawalsResponse =
  withdrawals_Data :: "'wd GetWithdrawalsResponse_Data"

definition new_GetWithdrawalsResponse :: "'wd GetWithdrawalsResponse" where
  "new_GetWithdrawalsResponse = \<lparr>withdrawals_Data = \<lparr>Withdrawals = []\<rparr>\<rparr>"

definition GetWithdrawals ::
  "'wd GetWithdrawalsResponse beacon \<Rightarrow> ProdBeaconInstance \<Rightarrow> uint64
     \<Rightarrow> ('wd GetWithdrawalsResponse option \<times> error option) \<times> 'wd GetWithdrawalsResponse beacon" where
  "GetWithdrawals w c slot =
     (let uri = beaconURI c @ ''/eth/v1/beacon/states/'' @ fmt_d (unat slot) @ ''/withdrawals'';
          resp = new_GetWithdrawalsResponse;
          ((code, err, resp'), w') = fetchBeacon w MethodGet uri None resp
      in ((Some resp', err), w'))"

subsection \<open>Head events: decoding\<close>

record HeadEventData =
  Slot :: uint64
  Block :: string
  State :: string

definition zero_HeadEventData :: HeadEventData where
  "zero_HeadEventData = \<lparr>Slot = 0, Block = [], State = []\<rparr>"

text \<open>
  \<^verbatim>\<open>json.Unmarshal\<close> belongs to the Go library \<^verbatim>\<open>encoding/json\<close>. Its scanner turns the
  text of a body into a JSON value, or fails on a text that is not one JSON value; the
  model of the decoder starts from that value, with every string already unquoted. The
  decoder stores the value into the struct, directed by the field tags. All its errors
  are \<open>DecodeError\<close> here, since the caller only tests \<^verbatim>\<open>err != nil\<close>.
\<close>

datatype json =
    JNull
  | JBool bool
  | JNumber string
  | JString string
  | JArray "json list"
  | JObject "(string \<times> json) list"

text \<open>
  A key of the object selects the field whose name equals it under simple case folding.
  The names here are lower-case ASCII letters: a byte of the key matches a letter of the
  name when it is that letter in either case; the long s (U+017F, bytes C5 BF) also
  matches \<open>s\<close>, and the Kelvin sign (U+212A, bytes E2 84 AA) also matches \<open>k\<close>.
\<close>

definition to_upper :: "char \<Rightarrow> char" where
  "to_upper c =
     (if 97 \<le> (of_char c :: nat) \<and> (of_char c :: nat) \<le> 122 then char_of ((of_char c :: nat) - 32)
      else c)"

fun equalFold :: "string \<Rightarrow> string \<Rightarrow> bool" where
  "equalFold [] t = (t = [])"
| "equalFold (sb # s) [] = False"
| "equalFold (sb # s) (tb # t) =
     (if (of_char tb :: nat) < 128 then (tb = sb \<or> tb = to_upper sb) \<and> equalFold s t
      else if sb = CHR ''s'' then
        (case tb # t of
           a # b # t' \<Rightarrow> (of_char a :: nat) = 197 \<and> (of_char b :: nat) = 191 \<and> equalFold s t'
         | _ \<Rightarrow> False)
      else if sb = CHR ''k'' then
        (case tb # t of
           a # b # c # t' \<Rightarrow>
             (of_char a :: nat) = 226 \<and> (of_char b :: nat) = 132 \<and> (of_char c :: nat) = 170
               \<and> equalFold s t'
         | _ \<Rightarrow> False)
      else False)"

declare equalFold.simps [simp del]

text \<open>
  The tag \<^verbatim>\<open>json:"slot,string"\<close>: the value must be a JSON string; its contents are read as
  a literal and stored into the \<^verbatim>\<open>uint64\<close>. The literal \<^verbatim>\<open>null\<close> changes nothing; a literal
  that \<^verbatim>\<open>strconv.ParseUint\<close> accepts is stored; everything else is an error. A JSON
  \<^verbatim>\<open>null\<close> in place of the string changes nothing either.
\<close>

definition store_quoted_uint64 :: "json \<Rightarrow> uint64 \<Rightarrow> error + uint64" where
  "store_quoted_uint64 v old =
     (case v of
        JNull \<Rightarrow> Inr old
      | JString item \<Rightarrow>
          (if item = ''null'' then Inr old
           else case ParseUint item of
                  Some n \<Rightarrow> Inr n
                | None \<Rightarrow> Inl (DecodeError ''json: cannot unmarshal into uint64''))
      | _ \<Rightarrow> Inl (DecodeError ''json: invalid use of ,string struct tag''))"

definition store_string :: "json \<Rightarrow> string \<Rightarrow> error + string" where
  "store_string v old =
     (case v of
        JNull \<Rightarrow> Inr old
      | JString s \<Rightarrow> Inr s
      | _ \<Rightarrow> Inl (DecodeError ''json: cannot unmarshal into string''))"

text \<open>
  The members of an object are stored in the order of the text, so a later duplicate
  overwrites an earlier one; a key that selects no field is skipped. An error makes the
  whole call fail, whether the library stops at it or keeps it and goes on; the model
  goes on and keeps the first one.
\<close>

definition keep_first :: "error option \<Rightarrow> error \<Rightarrow> error option" where
  "keep_first saved e = (case saved of None \<Rightarrow> Some e | Some e0 \<Rightarrow> Some e0)"

definition store_member ::
  "string \<times> json \<Rightarrow> HeadEventData \<times> error option \<Rightarrow> HeadEventData \<times> error option" where
  "store_member kv st =
     (let (key, v) = kv; (data, saved) = st
      in if equalFold ''slot'' key then
           (case store_quoted_uint64 v (Slot data) of
              Inl e \<Rightarrow> (data, keep_first saved e)
            | Inr n \<Rightarrow> (data\<lparr>Slot := n\<rparr>, saved))
         else if equalFold ''block'' key then
           (case store_string v (Block data) of
              Inl e \<Rightarrow> (data, keep_first saved e)
            | Inr b \<Rightarrow> (data\<lparr>Block := b\<rparr>, saved))
         else if equalFold ''state'' key then
           (case store_string v (State data) of
              Inl e \<Rightarrow> (data, keep_first saved e)
            | Inr b \<Rightarrow> (data\<lparr>State := b\<rparr>, saved))
         else (data, saved))"

definition Unmarshal_HeadEventData :: "json \<Rightarrow> error + HeadEventData" where
  "Unmarshal_HeadEventData v =
     (case v of
        JObject members \<Rightarrow>
          (case fold store_member members (zero_HeadEventData, None) of
             (data, None) \<Rightarrow> Inr data
           | (data, Some e) \<Rightarrow> Inl e)
      | JNull \<Rightarrow> Inr zero_HeadEventData
      | _ \<Rightarrow> Inl (DecodeError ''json: cannot unmarshal into Go value of type HeadEventData''))"

text \<open>
  A member is harmless when its key does not select the field \<^verbatim>\<open>Slot\<close> and, if the key
  selects \<^verbatim>\<open>Block\<close> or \<^verbatim>\<open>State\<close>, its value is a string or null.
\<close>

definition harmless :: "string \<times> json \<Rightarrow> bool" where
  "harmless kv =
     (\<not> equalFold ''slot'' (fst kv)
      \<and> (if equalFold ''block'' (fst kv) \<or> equalFold ''state'' (fst kv)
         then (case snd kv of JString s \<Rightarrow> True | JNull \<Rightarrow> True | _ \<Rightarrow> False)
         else True))"

text \<open>
  \<^verbatim>\<open>json.Unmarshal(msg.Data, &data)\<close> with \<open>data\<close> a fresh \<^verbatim>\<open>HeadEventData\<close>: the scanner of the
  library, from the bytes of a body to its JSON value (\<open>None\<close> for a text that is not one
  JSON value), is the parameter \<open>scan\<close>.
\<close>

definition json_Unmarshal :: "(string \<Rightarrow> json option) \<Rightarrow> string \<Rightarrow> error + HeadEventData" where
  "json_Unmarshal scan body =
     (case scan body of
        None \<Rightarrow> Inl (DecodeError ''json: syntax error'')
      | Some v \<Rightarrow> Unmarshal_HeadEventData v)"

subsection \<open>Head events: the subscription\<close>

text \<open>
  What the subscription does is the sequence of its actions: the log entries, the
  creation of a client for an attempt, the sends on the channel \<^verbatim>\<open>slotC\<close> (every send is
  accepted) and the sleeps, with their duration in nanoseconds.
\<close>

datatype action =
    LogInfo string
  | LogError error string
  | LogWarn string
  | NewClient string
  | Send HeadEventData
  | Sleep nat

definition Second :: nat where
  "Second = 1000000000"

text \<open>
  \<^verbatim>\<open>client.SubscribeRaw\<close> belongs to the library sse: one call hands the messages that the
  stream delivers to the handler, one after the other, and returns when the stream has
  ended, with an error or with nil. A session is what one call meets: the data of its
  messages and the value returned. The decoder of a message is a parameter of the
  handler.
\<close>

record session =
  events :: "string list"
  result :: "error option"

definition on_msg :: "(string \<Rightarrow> error + HeadEventData) \<Rightarrow> string \<Rightarrow> action list" where
  "on_msg unmarshal msg =
     (case unmarshal msg of
        Inl err \<Rightarrow> [LogError err ''could not unmarshal head event'']
      | Inr data \<Rightarrow> [Send data])"

definition SubscribeRaw :: "session \<Rightarrow> (string \<Rightarrow> action list) \<Rightarrow> action list \<times> error option" where
  "SubscribeRaw s handler = (concat (map handler (events s)), result s)"

record loop_state =
  attempts :: nat
  trace :: "action list"

definition eventsURL :: "ProdBeaconInstance \<Rightarrow> string" where
  "eventsURL c = beaconURI c @ ''/eth/v1/events?topics=head''"

text \<open>One pass through the body of the \<^verbatim>\<open>for\<close> loop; \<open>upstream k\<close> is the session of attempt \<open>k\<close>.\<close>

definition loop_body ::
  "(string \<Rightarrow> error + HeadEventData) \<Rightarrow> ProdBeaconInstance \<Rightarrow> (nat \<Rightarrow> session)
     \<Rightarrow> loop_state \<Rightarrow> loop_state" where
  "loop_body unmarshal c upstream st =
     (let (sent, err) = SubscribeRaw (upstream (attempts st)) (on_msg unmarshal);
          t1 = trace st @ [NewClient (eventsURL c)] @ sent;
          t2 = (case err of
                  Some e \<Rightarrow> t1 @ [LogError e ''failed to subscribe to head events'', Sleep (1 * Second)]
                | None \<Rightarrow> t1)
      in \<lparr>attempts = Suc (attempts st),
          trace = t2 @ [LogWarn ''beaconclient SubscribeRaw ended, reconnecting'']\<rparr>)"

definition loop_init :: "ProdBeaconInstance \<Rightarrow> loop_state" where
  "loop_init c = \<lparr>attempts = 0, trace = [LogInfo ''subscribing to head events'']\<rparr>"

text \<open>The loop itself: the result \<open>None\<close> says that the function does not return.\<close>

partial_function (option) SubscribeToHeadEvents_loop ::
  "(string \<Rightarrow> error + HeadEventData) \<Rightarrow> ProdBeaconInstance \<Rightarrow> (nat \<Rightarrow> session)
     \<Rightarrow> loop_state \<Rightarrow> unit option" where
  "SubscribeToHeadEvents_loop unmarshal c upstream st =
     SubscribeToHeadEvents_loop unmarshal c upstream (loop_body unmarshal c upstream st)"

definition SubscribeToHeadEvents ::
  "(string \<Rightarrow> error + HeadEventData) \<Rightarrow> ProdBeaconInstance \<Rightarrow> (nat \<Rightarrow> session) \<Rightarrow> unit option" where
  "SubscribeToHeadEvents unmarshal c upstream =
     SubscribeToHeadEvents_loop unmarshal c upstream (loop_init c)"

text \<open>The state of the subscription after \<open>n\<close> passes through the loop.\<close>

fun SubscribeToHeadEvents_after ::
  "(string \<Rightarrow> error + HeadEventData) \<Rightarrow> ProdBeaconInstance \<Rightarrow> (nat \<Rightarrow> session)
     \<Rightarrow> nat \<Rightarrow> loop_state" where
  "SubscribeToHeadEvents_after unmarshal c upstream 0 = loop_init c"
| "SubscribeToHeadEvents_after unmarshal c upstream (Suc n) =
     loop_body unmarshal c upstream (SubscribeToHeadEvents_after unmarshal c upstream n)"

text \<open>What the consumer of \<^verbatim>\<open>slotC\<close> receives, and the attempts made, in a sequence of actions.\<close>

fun delivered :: "action list \<Rightarrow> HeadEventData list" where
  "delivered [] = []"
| "delivered (Send d # t) = d # delivered t"
| "delivered (a # t) = delivered t"

fun connects :: "action list \<Rightarrow> nat" where
  "connects [] = 0"
| "connects (NewClient u # t) = Suc (connects t)"
| "connects (a # t) = connects t"

text \<open>
  The events that decode, decoded, in the order of the list.
\<close>

fun decodable :: "(string \<Rightarrow> error + HeadEventData) \<Rightarrow> string list \<Rightarrow> HeadEventData list" where
  "decodable unmarshal [] = []"
| "decodable unmarshal (e # es) =
     (case unmarshal e of
        Inl err \<Rightarrow> decodable unmarshal es
      | Inr d \<Rightarrow> d # decodable unmarshal es)"

text \<open>
  A backoff is observed in a sequence of actions when every attempt but the first comes
  after a sleep of one second that follows the attempt before it. The flag says whether
  such a sleep has been seen since the last attempt.
\<close>

fun backoff_observed :: "bool \<Rightarrow> action list \<Rightarrow> bool" where
  "backoff_observed slept [] = True"
| "backoff_observed slept (NewClient u # t) = (slept \<and> backoff_observed False t)"
| "backoff_observed slept (Sleep d # t) = backoff_observed (slept \<or> d = Second) t"
| "backoff_observed slept (a # t) = backoff_observed slept t"

subsection \<open>Inputs of the examples\<close>

definition example_instance :: ProdBeaconInstance where
  "example_instance = \<lparr>beaconURI = ''http://localhost:3500''\<rparr>"

definition example_entry :: "string \<Rightarrow> ValidatorResponseEntry" where
  "example_entry pk =
     \<lparr>Index = 7, Balance = ''32000000000'', Status = ''active_ongoing'', Validator = \<lparr>Pubkey = pk\<rparr>\<rparr>"

text \<open>A node that answers every request with \<open>r\<close>, and a node that fails every request with \<open>e\<close>.\<close>

definition answering :: "'d \<Rightarrow> 'd beacon" where
  "answering r = \<lparr>respond = (\<lambda>k req dst. (200, None, r)), calls = []\<rparr>"

definition failing :: "error \<Rightarrow> 'd beacon" where
  "failing e = \<lparr>respond = (\<lambda>k req dst. (0, Some e, dst)), calls = []\<rparr>"

text \<open>A decoder of messages that are the decimal digits of a slot, and three upstream feeds.\<close>

definition example_unmarshal :: "string \<Rightarrow> error + HeadEventData" where
  "example_unmarshal msg =
     (case ParseUint msg of
        Some n \<Rightarrow> Inr \<lparr>Slot = n, Block = [], State = []\<rparr>
      | None \<Rightarrow> Inl (DecodeError ''not a slot''))"

text \<open>A scanner that knows two bodies.\<close>

definition example_scan :: "string \<Rightarrow> json option" where
  \<open>example_scan body =
     (if body = ''{"slot":"123","block":"0x01","state":"0x02"}'' then
        Some (JObject [(''slot'', JString ''123''), (''block'', JString ''0x01''),
                       (''state'', JString ''0x02'')])
      else if body = ''{"block":"0x01","state":"0x02"}'' then
        Some (JObject [(''block'', JString ''0x01''), (''state'', JString ''0x02'')])
      else None)\<close>

definition closed_cleanly :: "nat \<Rightarrow> session" where
  "closed_cleanly k = \<lparr>events = [], result = None\<rparr>"

definition refused :: "nat \<Rightarrow> session" where
  "refused k = \<lparr>events = [], result = Some (TransportError ''connection refused'')\<rparr>"

definition one_bad_event :: "nat \<Rightarrow> session" where
  "one_bad_event k = \<lparr>events = [''7'', ''x'', ''8''], result = None\<rparr>"

section \<open>Properties\<close>

subsection \<open>Decimal rendering\<close>

lemma of_char_digit_char: "d < 10 \<Longrightarrow> (of_char (digit_char d) :: nat) = 48 + d"
  by (simp add: digit_char_def)

lemma is_digit_digit_char: "d < 10 \<Longrightarrow> is_digit (digit_char d)"
  by (simp add: is_digit_def of_char_digit_char)

lemma parse_digits_snoc:
  "parse_digits acc (xs @ [c]) =
     (case parse_digits acc xs of
        None \<Rightarrow> None
      | Some a \<Rightarrow> if is_digit c then Some (10 * a + ((of_char c :: nat) - 48)) else None)"
  by (induction xs arbitrary: acc) simp_all

lemma parse_digits_fmt_d: "parse_digits 0 (fmt_d n) = Some n"
proof (induction n rule: fmt_d.induct)
  case (1 n)
  show ?case
  proof (cases "n < 10")
    case True
    then show ?thesis
      by (subst fmt_d.simps) (simp add: is_digit_digit_char of_char_digit_char)
  next
    case False
    have "n mod 10 < 10" by simp
    with False 1 show ?thesis
      by (subst fmt_d.simps) (simp add: parse_digits_snoc is_digit_digit_char of_char_digit_char)
  qed
qed

lemma fmt_d_nonempty: "fmt_d n \<noteq> []"
  by (subst fmt_d.simps) simp

lemma ParseUint_fmt_d: "ParseUint (fmt_d (unat (s :: uint64))) = Some s"
proof -
  have "unat s < 2 ^ 64" using unsigned_less [of s] by simp
  then show ?thesis
    by (simp add: ParseUint_def fmt_d_nonempty parse_digits_fmt_d)
qed

subsection \<open>The requests of the validator fetch\<close>

lemma fetchBeacon_calls:
  "calls (snd (fetchBeacon w m u p d)) = calls w @ [(m, u, p)]"
  by (simp add: fetchBeacon_def)

lemma fetchAllValidators_calls:
  "calls (snd (fetchAllValidators w endpoint s)) =
     calls w @ [(''GET'', endpoint @ ''/eth/v1/beacon/states/'' @ fmt_d (unat s)
                  @ ''/validators?status=active,pending'', None)]"
  by (simp add: fetchAllValidators_def Let_def split_beta fetchBeacon_calls MethodGet_def)

lemma FetchValidators_world:
  "snd (FetchValidators w c s) = snd (fetchAllValidators w (beaconURI c) s)"
  by (simp add: FetchValidators_def Let_def split_beta split: option.splits)

text \<open>
  C9: for every head slot \<open>s\<close>, \<^verbatim>\<open>FetchValidators\<close> issues one request more, a GET without a body
  to the base endpoint followed by \<^verbatim>\<open>/eth/v1/beacon/states/{s}/validators\<close> with the query
  \<^verbatim>\<open>status=active,pending\<close>; the slot in the path is \<open>s\<close> in decimal: it reads back as \<open>s\<close>.
\<close>

theorem FetchValidators_request:
  "calls (snd (FetchValidators w c s)) =
     calls w @ [(''GET'', beaconURI c @ ''/eth/v1/beacon/states/'' @ fmt_d (unat s)
                  @ ''/validators?status=active,pending'', None)]
   \<and> ParseUint (fmt_d (unat s)) = Some s"
  by (simp add: FetchValidators_world fetchAllValidators_calls ParseUint_fmt_d)

subsection \<open>The current slot\<close>

text \<open>
  C8: when \<^verbatim>\<open>SyncStatus\<close> succeeds with the data \<open>d\<close>, \<^verbatim>\<open>CurrentSlot\<close> returns the head slot of \<open>d\<close>
  and no error; when \<^verbatim>\<open>SyncStatus\<close> fails with the error \<open>e\<close>, \<^verbatim>\<open>CurrentSlot\<close> returns 0 and
  the same \<open>e\<close>; it does nothing to the node beyond what \<^verbatim>\<open>SyncStatus\<close> does.
\<close>

theorem CurrentSlot_from_SyncStatus:
  "(fst (SyncStatus w c) = (Some d, None) \<longrightarrow> fst (CurrentSlot w c) = Returns (HeadSlot d, None))
   \<and> (snd (fst (SyncStatus w c)) = Some e \<longrightarrow> fst (CurrentSlot w c) = Returns (0, Some e))
   \<and> snd (CurrentSlot w c) = snd (SyncStatus w c)"
  by (auto simp: CurrentSlot_def Let_def split_beta split: option.splits)

theorem CurrentSlot_from_SyncStatus_witness:
  "fst (SyncStatus (answering \<lparr>sync_Data = \<lparr>HeadSlot = 251114, IsSyncing = False\<rparr>\<rparr>) example_instance)
     = (Some \<lparr>HeadSlot = 251114, IsSyncing = False\<rparr>, None)
   \<and> fst (CurrentSlot (answering \<lparr>sync_Data = \<lparr>HeadSlot = 251114, IsSyncing = False\<rparr>\<rparr>)
            example_instance) = Returns (251114, None)
   \<and> snd (fst (SyncStatus (failing (TransportError ''connection refused'')) example_instance))
     = Some (TransportError ''connection refused'')
   \<and> fst (CurrentSlot (failing (TransportError ''connection refused'')) example_instance)
     = Returns (0, Some (TransportError ''connection refused''))"
proof -
  define d where "d = \<lparr>HeadSlot = 251114 :: uint64, IsSyncing = False\<rparr>"
  define e where "e = TransportError ''connection refused''"
  have 1: "fst (SyncStatus (answering \<lparr>sync_Data = d\<rparr>) example_instance) = (Some d, None)"
    by (simp add: SyncStatus_def fetchBeacon_def answering_def)
  have 2: "snd (fst (SyncStatus (failing e) example_instance)) = Some e"
    by (simp add: SyncStatus_def fetchBeacon_def failing_def)
  have 3: "fst (CurrentSlot (answering \<lparr>sync_Data = d\<rparr>) example_instance)
             = Returns (HeadSlot d, None)"
    using CurrentSlot_from_SyncStatus [of "answering \<lparr>sync_Data = d\<rparr>" example_instance d] 1
    by blast
  have 4: "fst (CurrentSlot (failing e) example_instance) = Returns (0, Some e)"
    using CurrentSlot_from_SyncStatus [of "failing e" example_instance _ e] 2
    by blast
  have 5: "HeadSlot d = 251114" by (simp add: d_def)
  from 1 2 3 4 show ?thesis
    unfolding 5 unfolding d_def e_def by (intro conjI)
qed

subsection \<open>The validator set\<close>

lemma fold_snoc_upd:
  assumes g: "\<And>vs m. g vs m = m(f vs \<mapsto> vs)"
  shows "fold g (xs @ [x]) m0 = (fold g xs m0)(f x \<mapsto> x)"
proof -
  have "fold g (xs @ [x]) m0 = g x (fold g xs m0)" by simp
  also have "\<dots> = (fold g xs m0)(f x \<mapsto> x)" by (rule g)
  finally show ?thesis .
qed

lemma fold_upd_last:
  assumes g: "\<And>vs m. g vs m = m(f vs \<mapsto> vs)"
  shows "fold g xs m0 k =
     (if filter (\<lambda>e. f e = k) xs = [] then m0 k else Some (last (filter (\<lambda>e. f e = k) xs)))"
proof (induction xs rule: rev_induct)
  case Nil
  show ?case by simp
next
  case (snoc x xs)
  show ?case
    unfolding fold_snoc_upd [of g f, OF g] using snoc by simp
qed

lemma dom_fold_upd:
  assumes g: "\<And>vs m. g vs m = m(f vs \<mapsto> vs)"
  shows "dom (fold g xs m0) = dom m0 \<union> f ` set xs"
proof (induction xs rule: rev_induct)
  case Nil
  show ?case by simp
next
  case (snoc x xs)
  have "dom (fold g (xs @ [x]) m0) = insert (f x) (dom (fold g xs m0))"
    unfolding fold_snoc_upd [of g f, OF g] by simp
  then show ?case using snoc by simp
qed

lemma NewPubkeyHex_AA: "NewPubkeyHex ''0xAA'' = ''0xaa''"
  by code_simp

lemma NewPubkeyHex_BB: "NewPubkeyHex ''0xBB'' = ''0xbb''"
  by code_simp

lemma NewPubkeyHex_aa: "NewPubkeyHex ''0xaa'' = ''0xaa''"
  by code_simp

text \<open>
  C5: when the fetch succeeds with the response \<open>r\<close>, \<^verbatim>\<open>FetchValidators\<close> returns a map and no
  error; the keys of the map are exactly the normalized public keys of the entries of
  \<open>r\<close> (a map has every key once); an entry that no later entry of the same normalized key
  follows is the value of its key, so the last of several duplicates wins; and a response of
  two entries with the public keys \<^verbatim>\<open>0xAA\<close> and \<^verbatim>\<open>0xBB\<close> gives a map of size 2 with the keys
  \<^verbatim>\<open>0xaa\<close> and \<^verbatim>\<open>0xbb\<close>.
\<close>

theorem FetchValidators_keys:
  assumes "fst (fetchAllValidators w (beaconURI c) s) = (Some r, None)"
  shows "\<exists>m. fst (FetchValidators w c s) = Returns (Some m, None)
           \<and> dom m = (\<lambda>e. NewPubkeyHex (Pubkey (Validator e))) ` set (Data r)
           \<and> (\<forall>xs e ys. Data r = xs @ e # ys
                  \<and> NewPubkeyHex (Pubkey (Validator e))
                        \<notin> (\<lambda>e. NewPubkeyHex (Pubkey (Validator e))) ` set ys
                \<longrightarrow> m (NewPubkeyHex (Pubkey (Validator e))) = Some e)
           \<and> (\<forall>e1 e2. Data r = [e1, e2] \<and> Pubkey (Validator e1) = ''0xAA''
                  \<and> Pubkey (Validator e2) = ''0xBB''
                \<longrightarrow> dom m = {''0xaa'', ''0xbb''} \<and> card (dom m) = 2)"
proof -
  let ?key = "\<lambda>e. NewPubkeyHex (Pubkey (Validator e))"
  let ?g = "\<lambda>vs m. m(?key vs \<mapsto> vs)"
  let ?m = "fold ?g (Data r) Map.empty"
  have res: "fst (FetchValidators w c s) = Returns (Some ?m, None)"
    using assms by (simp add: FetchValidators_def split_beta)
  have d: "dom ?m = ?key ` set (Data r)"
    by (subst dom_fold_upd [where f = ?key]) simp_all
  have l: "?m (?key e) = Some e" if "Data r = xs @ e # ys" "?key e \<notin> ?key ` set ys" for xs e ys
  proof -
    have "filter (\<lambda>x. ?key x = ?key e) ys = []"
      using that(2) by (force simp: filter_empty_conv image_iff)
    then have "filter (\<lambda>x. ?key x = ?key e) (Data r) = filter (\<lambda>x. ?key x = ?key e) xs @ [e]"
      using that(1) by simp
    then show ?thesis
      by (subst fold_upd_last [where f = ?key]) simp_all
  qed
  have two: "dom ?m = {''0xaa'', ''0xbb''} \<and> card (dom ?m) = 2"
    if "Data r = [e1, e2]" "Pubkey (Validator e1) = ''0xAA''" "Pubkey (Validator e2) = ''0xBB''"
    for e1 e2
  proof -
    have "dom ?m = {''0xaa'', ''0xbb''}"
      unfolding d using that by (simp add: NewPubkeyHex_AA NewPubkeyHex_BB)
    then show ?thesis by simp
  qed
  show ?thesis
    using res d l two by blast
qed

theorem FetchValidators_keys_witness:
  "fst (fetchAllValidators
          (answering \<lparr>Data = [example_entry ''0xAA'', example_entry ''0xBB'', example_entry ''0xaa'']\<rparr>)
          (beaconURI example_instance) 5)
     = (Some \<lparr>Data = [example_entry ''0xAA'', example_entry ''0xBB'', example_entry ''0xaa'']\<rparr>, None)
   \<and> (\<exists>m. fst (FetchValidators
          (answering \<lparr>Data = [example_entry ''0xAA'', example_entry ''0xBB'', example_entry ''0xaa'']\<rparr>)
          example_instance 5) = Returns (Some m, None)
         \<and> dom m = {''0xaa'', ''0xbb''}
         \<and> m ''0xaa'' = Some (example_entry ''0xaa'')
         \<and> m ''0xbb'' = Some (example_entry ''0xBB''))"
proof -
  define e1 where "e1 = example_entry ''0xAA''"
  define e2 where "e2 = example_entry ''0xBB''"
  define e3 where "e3 = example_entry ''0xaa''"
  define r where "r = \<lparr>Data = [e1, e2, e3]\<rparr>"
  define w where "w = (answering r :: AllValidatorsResponse beacon)"
  have k1: "NewPubkeyHex (Pubkey (Validator e1)) = ''0xaa''"
    unfolding e1_def example_entry_def by (simp add: NewPubkeyHex_AA)
  have k2: "NewPubkeyHex (Pubkey (Validator e2)) = ''0xbb''"
    unfolding e2_def example_entry_def by (simp add: NewPubkeyHex_BB)
  have k3: "NewPubkeyHex (Pubkey (Validator e3)) = ''0xaa''"
    unfolding e3_def example_entry_def by (simp add: NewPubkeyHex_aa)
  have h: "fst (fetchAllValidators w (beaconURI example_instance) 5) = (Some r, None)"
    by (simp add: fetchAllValidators_def fetchBeacon_def answering_def w_def)
  from FetchValidators_keys [OF h] obtain m where
    m: "fst (FetchValidators w example_instance 5) = Returns (Some m, None)"
    and d: "dom m = (\<lambda>e. NewPubkeyHex (Pubkey (Validator e))) ` set (Data r)"
    and l: "\<forall>xs e ys. Data r = xs @ e # ys
                  \<and> NewPubkeyHex (Pubkey (Validator e))
                        \<notin> (\<lambda>e. NewPubkeyHex (Pubkey (Validator e))) ` set ys
                \<longrightarrow> m (NewPubkeyHex (Pubkey (Validator e))) = Some e"
    by (elim exE conjE)
  have d': "dom m = {''0xaa'', ''0xbb''}"
  proof -
    have gen: "{a, b, a} = {a, b}" for a b :: string by auto
    show ?thesis unfolding d r_def by (simp add: k1 k2 k3 gen)
  qed
  have "m (NewPubkeyHex (Pubkey (Validator e3))) = Some e3"
    by (rule l [rule_format, of "[e1, e2]" e3 "[]"]) (simp add: r_def)
  then have l1: "m ''0xaa'' = Some e3" by (simp only: k3)
  have "m (NewPubkeyHex (Pubkey (Validator e2))) = Some e2"
    by (rule l [rule_format, of "[e1]" e2 "[e3]"]) (simp add: r_def k2 k3)
  then have l2: "m ''0xbb'' = Some e2" by (simp only: k2)
  from m d' l1 l2 have "\<exists>m. fst (FetchValidators w example_instance 5) = Returns (Some m, None)
         \<and> dom m = {''0xaa'', ''0xbb''} \<and> m ''0xaa'' = Some e3 \<and> m ''0xbb'' = Some e2"
    by (intro exI [of _ m] conjI)
  with h show ?thesis
    unfolding w_def r_def e1_def e2_def e3_def by (intro conjI)
qed

text \<open>
  C7: when the fetch of the validators fails with the error \<open>e\<close>, whatever the slot,
  \<^verbatim>\<open>FetchValidators\<close> returns the nil map and the same \<open>e\<close>, after exactly one request (no
  retry); and whenever \<^verbatim>\<open>FetchValidators\<close> returns a map, the fetch had no error.
\<close>

theorem FetchValidators_error:
  assumes "fst (fetchAllValidators w (beaconURI c) s) = (vd, Some e)"
  shows "fst (FetchValidators w c s) = Returns (None, Some e)
         \<and> length (calls (snd (FetchValidators w c s))) = length (calls w) + 1
         \<and> (\<forall>m err. fst (FetchValidators w' c s') = Returns (Some m, err)
               \<longrightarrow> snd (fst (fetchAllValidators w' (beaconURI c) s')) = None)"
proof -
  have 1: "fst (FetchValidators w c s) = Returns (None, Some e)"
    using assms by (simp add: FetchValidators_def split_beta)
  have 2: "length (calls (snd (FetchValidators w c s))) = length (calls w) + 1"
    by (simp add: FetchValidators_world fetchAllValidators_calls)
  have 3: "snd (fst (fetchAllValidators w' (beaconURI c) s')) = None"
    if "fst (FetchValidators w' c s') = Returns (Some m, err)" for m err
    using that by (auto simp: FetchValidators_def split_beta split: option.splits)
  from 1 2 3 show ?thesis by blast
qed

theorem FetchValidators_error_witness:
  "fst (fetchAllValidators (failing (UpstreamStatusError 503 ''unavailable'')) (beaconURI example_instance) 5)
     = (Some new_AllValidatorsResponse, Some (UpstreamStatusError 503 ''unavailable''))
   \<and> fst (FetchValidators (failing (UpstreamStatusError 503 ''unavailable'')) example_instance 5)
     = Returns (None, Some (UpstreamStatusError 503 ''unavailable''))
   \<and> length (calls (snd (FetchValidators (failing (UpstreamStatusError 503 ''unavailable''))
                          example_instance 5))) = 1"
proof -
  have h: "fst (fetchAllValidators (failing (UpstreamStatusError 503 ''unavailable''))
              (beaconURI example_instance) 5)
     = (Some new_AllValidatorsResponse, Some (UpstreamStatusError 503 ''unavailable''))"
    by (simp add: fetchAllValidators_def fetchBeacon_def failing_def)
  have c: "calls (failing (UpstreamStatusError 503 ''unavailable'') :: AllValidatorsResponse beacon) = []"
    by (simp add: failing_def)
  from FetchValidators_error [OF h] h c show ?thesis by simp
qed

subsection \<open>The head-event subscription\<close>

lemma delivered_append: "delivered (a @ b) = delivered a @ delivered b"
  by (induction a rule: delivered.induct) simp_all

lemma connects_append: "connects (a @ b) = connects a + connects b"
  by (induction a rule: connects.induct) simp_all

lemma decodable_append: "decodable u (a @ b) = decodable u a @ decodable u b"
  by (induction a) (simp_all split: sum.splits)

lemma decodable_concat: "decodable u (concat xss) = concat (map (decodable u) xss)"
  by (induction xss) (simp_all add: decodable_append)

lemma delivered_on_msg: "delivered (concat (map (on_msg u) es)) = decodable u es"
  by (induction es) (simp_all add: delivered_append on_msg_def split: sum.splits)

lemma connects_on_msg: "connects (concat (map (on_msg u) es)) = 0"
  by (induction es) (simp_all add: connects_append on_msg_def split: sum.splits)

lemma backoff_on_msg:
  "backoff_observed b (concat (map (on_msg u) es) @ t) = backoff_observed b t"
  by (induction es) (simp_all add: on_msg_def split: sum.splits)

lemma attempts_after: "attempts (SubscribeToHeadEvents_after u c up n) = n"
  by (induction n) (simp_all add: loop_body_def loop_init_def SubscribeRaw_def Let_def)

lemma trace_Suc:
  "trace (SubscribeToHeadEvents_after u c up (Suc n)) =
     trace (SubscribeToHeadEvents_after u c up n) @ [NewClient (eventsURL c)]
       @ concat (map (on_msg u) (events (up n)))
       @ (case result (up n) of
            Some e \<Rightarrow> [LogError e ''failed to subscribe to head events'', Sleep Second]
          | None \<Rightarrow> [])
       @ [LogWarn ''beaconclient SubscribeRaw ended, reconnecting'']"
  by (simp add: loop_body_def SubscribeRaw_def attempts_after Let_def split: option.splits)

lemma delivered_after:
  "delivered (trace (SubscribeToHeadEvents_after u c up n)) =
     decodable u (concat (map (\<lambda>k. events (up k)) [0..<n]))"
proof (induction n)
  case 0
  show ?case by (simp add: loop_init_def)
next
  case (Suc n)
  show ?case
    by (simp add: trace_Suc delivered_append delivered_on_msg decodable_append Suc
             split: option.splits del: SubscribeToHeadEvents_after.simps)
qed

lemma connects_after: "connects (trace (SubscribeToHeadEvents_after u c up n)) = n"
proof (induction n)
  case 0
  show ?case by (simp add: loop_init_def)
next
  case (Suc n)
  show ?case
    by (simp add: trace_Suc connects_append connects_on_msg Suc split: option.splits
             del: SubscribeToHeadEvents_after.simps)
qed

text \<open>
  C1: the consumer of \<^verbatim>\<open>slotC\<close> receives exactly the events that decode, decoded, in the
  order in which the feed delivers them and none left out: during one connection, and
  over any number of passes through the loop (the events of the successive connections, in
  order).
\<close>

theorem SubscribeToHeadEvents_delivers_in_order:
  "delivered (fst (SubscribeRaw s (on_msg unmarshal))) = decodable unmarshal (events s)
   \<and> delivered (trace (SubscribeToHeadEvents_after unmarshal c upstream n)) =
       decodable unmarshal (concat (map (\<lambda>k. events (upstream k)) [0..<n]))"
  by (simp add: SubscribeRaw_def delivered_on_msg delivered_after)

text \<open>
  C2: an event that does not decode is logged and skipped. The handler only writes the
  log entry; the events around it are delivered as if it were not there; the handler
  starts no connection, and the call of \<^verbatim>\<open>SubscribeRaw\<close> returns what the stream returns;
  over the whole run, the deliveries and the number of attempts are those of the same
  feed without the event.
\<close>

theorem malformed_event_skipped:
  assumes bad: "unmarshal bad = Inl err"
    and ev: "events (upstream k) = xs @ bad # ys"
  shows "on_msg unmarshal bad = [LogError err ''could not unmarshal head event'']
    \<and> delivered (fst (SubscribeRaw (upstream k) (on_msg unmarshal))) =
        decodable unmarshal xs @ decodable unmarshal ys
    \<and> connects (fst (SubscribeRaw (upstream k) (on_msg unmarshal))) = 0
    \<and> snd (SubscribeRaw (upstream k) (on_msg unmarshal)) = result (upstream k)
    \<and> delivered (trace (SubscribeToHeadEvents_after unmarshal c upstream n)) =
        delivered (trace (SubscribeToHeadEvents_after unmarshal c
                     (upstream(k := (upstream k)\<lparr>events := xs @ ys\<rparr>)) n))
    \<and> connects (trace (SubscribeToHeadEvents_after unmarshal c upstream n)) =
        connects (trace (SubscribeToHeadEvents_after unmarshal c
                     (upstream(k := (upstream k)\<lparr>events := xs @ ys\<rparr>)) n))"
proof -
  let ?up' = "upstream(k := (upstream k)\<lparr>events := xs @ ys\<rparr>)"
  have 1: "on_msg unmarshal bad = [LogError err ''could not unmarshal head event'']"
    using bad by (simp add: on_msg_def)
  have 2: "delivered (fst (SubscribeRaw (upstream k) (on_msg unmarshal))) =
        decodable unmarshal xs @ decodable unmarshal ys"
    using bad by (simp add: SubscribeRaw_def delivered_on_msg ev decodable_append
                    del: map_append concat_append)
  have 3: "connects (fst (SubscribeRaw (upstream k) (on_msg unmarshal))) = 0"
    by (simp add: SubscribeRaw_def connects_on_msg)
  have 4: "snd (SubscribeRaw (upstream k) (on_msg unmarshal)) = result (upstream k)"
    by (simp add: SubscribeRaw_def)
  have same: "decodable unmarshal (events (upstream j)) = decodable unmarshal (events (?up' j))"
    for j
    using bad ev by (simp add: decodable_append)
  have "map (decodable unmarshal) (map (\<lambda>j. events (upstream j)) [0..<n]) =
        map (decodable unmarshal) (map (\<lambda>j. events (?up' j)) [0..<n])"
    unfolding map_map comp_def using same by (intro map_cong refl)
  then have 5: "delivered (trace (SubscribeToHeadEvents_after unmarshal c upstream n)) =
        delivered (trace (SubscribeToHeadEvents_after unmarshal c ?up' n))"
    by (simp only: delivered_after decodable_concat)
  have 6: "connects (trace (SubscribeToHeadEvents_after unmarshal c upstream n)) =
        connects (trace (SubscribeToHeadEvents_after unmarshal c ?up' n))"
    by (simp only: connects_after)
  from 1 2 3 4 5 6 show ?thesis by blast
qed

theorem malformed_event_skipped_witness:
  "example_unmarshal ''x'' = Inl (DecodeError ''not a slot'')
   \<and> events (one_bad_event 0) = [''7''] @ ''x'' # [''8'']
   \<and> on_msg example_unmarshal ''x'' =
       [LogError (DecodeError ''not a slot'') ''could not unmarshal head event'']
   \<and> delivered (fst (SubscribeRaw (one_bad_event 0) (on_msg example_unmarshal))) =
       [\<lparr>Slot = 7, Block = [], State = []\<rparr>, \<lparr>Slot = 8, Block = [], State = []\<rparr>]
   \<and> connects (fst (SubscribeRaw (one_bad_event 0) (on_msg example_unmarshal))) = 0"
proof -
  have h1: "example_unmarshal ''x'' = Inl (DecodeError ''not a slot'')"
    by (simp add: example_unmarshal_def ParseUint_def is_digit_def)
  have h2: "events (one_bad_event 0) = [''7''] @ ''x'' # [''8'']"
    by (simp add: one_bad_event_def)
  have d7: "decodable example_unmarshal [''7''] = [\<lparr>Slot = 7, Block = [], State = []\<rparr>]"
    by (simp add: example_unmarshal_def ParseUint_def is_digit_def)
  have d8: "decodable example_unmarshal [''8''] = [\<lparr>Slot = 8, Block = [], State = []\<rparr>]"
    by (simp add: example_unmarshal_def ParseUint_def is_digit_def)
  from malformed_event_skipped
         [where unmarshal = example_unmarshal and bad = "''x''" and upstream = one_bad_event
            and k = 0 and xs = "[''7'']" and ys = "[''8'']", OF h1 h2]
  have "on_msg example_unmarshal ''x'' =
          [LogError (DecodeError ''not a slot'') ''could not unmarshal head event'']"
    and "delivered (fst (SubscribeRaw (one_bad_event 0) (on_msg example_unmarshal))) =
          decodable example_unmarshal [''7''] @ decodable example_unmarshal [''8'']"
    and "connects (fst (SubscribeRaw (one_bad_event 0) (on_msg example_unmarshal))) = 0"
    by blast+
  with h1 h2 show ?thesis
    by (simp only: d7 d8 append.simps)
qed

subsection \<open>The loop\<close>

lemma loop_no_result:
  assumes "SubscribeToHeadEvents_loop u c up st = Some y"
  shows False
  by (rule SubscribeToHeadEvents_loop.raw_induct
        [where P = "\<lambda>u c up st y. False", OF _ assms]) blast

lemma loop_never_returns: "SubscribeToHeadEvents_loop u c up st = None"
proof (cases "SubscribeToHeadEvents_loop u c up st")
  case None
  then show ?thesis .
next
  case (Some y)
  then show ?thesis using loop_no_result by blast
qed

lemma loop_after:
  "SubscribeToHeadEvents_loop u c up (SubscribeToHeadEvents_after u c up n) =
     SubscribeToHeadEvents u c up"
proof (induction n)
  case 0
  show ?case by (simp add: SubscribeToHeadEvents_def)
next
  case (Suc n)
  have "SubscribeToHeadEvents_loop u c up (SubscribeToHeadEvents_after u c up (Suc n)) =
        SubscribeToHeadEvents_loop u c up (SubscribeToHeadEvents_after u c up n)"
    by (subst (2) SubscribeToHeadEvents_loop.simps) simp
  with Suc show ?case by simp
qed

text \<open>
  C4: \<^verbatim>\<open>SubscribeToHeadEvents\<close> does not return, whatever the feed does. The loop reaches
  the state after \<open>n\<close> passes for every \<open>n\<close> and goes on from there; that state has made \<open>n\<close>
  attempts, whether they failed or not, and the next action after it is attempt \<open>n + 1\<close>,
  so there is no last attempt. (The end of the process is outside the function.)
\<close>

theorem SubscribeToHeadEvents_never_returns:
  "SubscribeToHeadEvents unmarshal c upstream = None
   \<and> SubscribeToHeadEvents_loop unmarshal c upstream
        (SubscribeToHeadEvents_after unmarshal c upstream n) =
      SubscribeToHeadEvents unmarshal c upstream
   \<and> attempts (SubscribeToHeadEvents_after unmarshal c upstream n) = n
   \<and> connects (trace (SubscribeToHeadEvents_after unmarshal c upstream n)) = n
   \<and> connects (trace (SubscribeToHeadEvents_after unmarshal c upstream (Suc n))) = Suc n
   \<and> (\<exists>rest. trace (SubscribeToHeadEvents_after unmarshal c upstream (Suc n)) =
         trace (SubscribeToHeadEvents_after unmarshal c upstream n)
           @ NewClient (eventsURL c) # rest)"
proof -
  have 1: "SubscribeToHeadEvents unmarshal c upstream = None"
    by (simp add: SubscribeToHeadEvents_def loop_never_returns)
  have 2: "attempts (SubscribeToHeadEvents_after unmarshal c upstream n) = n"
    by (rule attempts_after)
  have 3: "\<exists>rest. trace (SubscribeToHeadEvents_after unmarshal c upstream (Suc n)) =
         trace (SubscribeToHeadEvents_after unmarshal c upstream n)
           @ NewClient (eventsURL c) # rest"
    by (simp add: trace_Suc del: SubscribeToHeadEvents_after.simps)
  from 1 2 3 loop_after [of unmarshal c upstream n]
    connects_after [of unmarshal c upstream n] connects_after [of unmarshal c upstream "Suc n"]
  show ?thesis by blast
qed

subsection \<open>The backoff\<close>

lemma backoff_after_failures:
  "(\<And>k. k < n \<Longrightarrow> result (up k) \<noteq> None) \<Longrightarrow>
   backoff_observed True (trace (SubscribeToHeadEvents_after u c up n) @ t) =
     backoff_observed True t"
proof (induction n arbitrary: t)
  case 0
  show ?case by (simp add: loop_init_def)
next
  case (Suc n)
  from Suc.prems [of n] obtain e where e: "result (up n) = Some e" by auto
  have "backoff_observed True (trace (SubscribeToHeadEvents_after u c up (Suc n)) @ t) =
        backoff_observed True ([NewClient (eventsURL c)]
       @ concat (map (on_msg u) (events (up n)))
       @ [LogError e ''failed to subscribe to head events'', Sleep Second,
          LogWarn ''beaconclient SubscribeRaw ended, reconnecting''] @ t)"
    using Suc.IH [OF Suc.prems] by (simp add: trace_Suc e del: SubscribeToHeadEvents_after.simps)
  then show ?case by (simp add: backoff_on_msg)
qed

text \<open>
  C3, as stated: between every two consecutive attempts a sleep of one second is observed.
  It fails when the stream ends without an error: the feed \<open>closed_cleanly\<close> closes every
  connection with the result nil, and the second attempt follows the first at once.
\<close>

theorem backoff_counterexample:
  "\<not> backoff_observed True
       (trace (SubscribeToHeadEvents_after example_unmarshal example_instance closed_cleanly
                 (Suc (Suc 0))))"
  by (simp add: loop_body_def loop_init_def SubscribeRaw_def closed_cleanly_def)

text \<open>
  C3, amended: a pass through the loop makes its attempt, handles the events, and then
  sleeps one second (\<open>10\<^sup>9\<close> nanoseconds), after the log entry of the failure, exactly when
  \<^verbatim>\<open>SubscribeRaw\<close> has returned an error; when it has returned nil the pass ends without a
  sleep. So a backoff is observed between every two consecutive attempts of a run in which
  every attempt ends with an error.
\<close>

theorem backoff_only_after_error:
  "trace (SubscribeToHeadEvents_after unmarshal c upstream (Suc n)) =
     trace (SubscribeToHeadEvents_after unmarshal c upstream n)
       @ [NewClient (eventsURL c)]
       @ fst (SubscribeRaw (upstream n) (on_msg unmarshal))
       @ (case result (upstream n) of
            Some e \<Rightarrow> [LogError e ''failed to subscribe to head events'', Sleep Second]
          | None \<Rightarrow> [])
       @ [LogWarn ''beaconclient SubscribeRaw ended, reconnecting'']
   \<and> Second = 1000000000
   \<and> ((\<forall>k<n. result (upstream k) \<noteq> None)
        \<longrightarrow> backoff_observed True (trace (SubscribeToHeadEvents_after unmarshal c upstream n)))"
proof -
  have 1: "trace (SubscribeToHeadEvents_after unmarshal c upstream (Suc n)) =
     trace (SubscribeToHeadEvents_after unmarshal c upstream n)
       @ [NewClient (eventsURL c)]
       @ fst (SubscribeRaw (upstream n) (on_msg unmarshal))
       @ (case result (upstream n) of
            Some e \<Rightarrow> [LogError e ''failed to subscribe to head events'', Sleep Second]
          | None \<Rightarrow> [])
       @ [LogWarn ''beaconclient SubscribeRaw ended, reconnecting'']"
    by (simp add: trace_Suc SubscribeRaw_def del: SubscribeToHeadEvents_after.simps)
  have 2: "backoff_observed True (trace (SubscribeToHeadEvents_after unmarshal c upstream n))"
    if "\<forall>k<n. result (upstream k) \<noteq> None"
    using backoff_after_failures [of n upstream unmarshal c "[]"] that by simp
  have 3: "Second = 1000000000" by (simp add: Second_def)
  from 1 2 3 show ?thesis by blast
qed

theorem backoff_only_after_error_witness:
  "result (refused 0) = Some (TransportError ''connection refused'')
   \<and> result (refused 1) = Some (TransportError ''connection refused'')
   \<and> backoff_observed True
       (trace (SubscribeToHeadEvents_after example_unmarshal example_instance refused
                 (Suc (Suc 0))))"
proof -
  have h: "\<forall>k<Suc (Suc 0). result (refused k) \<noteq> None"
    by (simp add: refused_def)
  have r: "result (refused k) = Some (TransportError ''connection refused'')" for k
    by (simp add: refused_def)
  from backoff_only_after_error [of example_unmarshal example_instance refused "Suc (Suc 0)"] h
  have "backoff_observed True
       (trace (SubscribeToHeadEvents_after example_unmarshal example_instance refused
                 (Suc (Suc 0))))"
    by blast
  with r show ?thesis by blast
qed

subsection \<open>Decoding a head event\<close>

lemma equalFold_fields:
  "equalFold ''slot'' ''slot''" "\<not> equalFold ''slot'' ''block''" "\<not> equalFold ''slot'' ''state''"
  "equalFold ''block'' ''block''" "\<not> equalFold ''block'' ''state''"
  "equalFold ''state'' ''state''"
  by code_simp+

lemma equalFold_others:
  "\<not> equalFold ''slot'' ''epoch_transition''" "\<not> equalFold ''block'' ''epoch_transition''"
  "\<not> equalFold ''state'' ''epoch_transition''"
  "\<not> equalFold ''slot'' ''execution_optimistic''" "\<not> equalFold ''block'' ''execution_optimistic''"
  "\<not> equalFold ''state'' ''execution_optimistic''"
  by code_simp+

lemma ParseUint_null: "ParseUint ''null'' = None"
  by (simp add: ParseUint_def is_digit_def)

lemma fmt_d_not_null: "fmt_d (unat (n :: uint64)) \<noteq> ''null''"
  using ParseUint_fmt_d [of n] ParseUint_null by auto

lemmas Unmarshal_defs =
  Unmarshal_HeadEventData_def store_member_def store_quoted_uint64_def store_string_def
  zero_HeadEventData_def keep_first_def

lemma store_member_harmless:
  assumes "harmless kv"
  shows "\<exists>d'. store_member kv (d, None) = (d', None) \<and> Slot d' = Slot d"
proof (cases kv)
  case (Pair k v)
  with assms show ?thesis
    by (cases v) (auto simp: harmless_def store_member_def store_string_def)
qed

lemma fold_store_member_harmless:
  "list_all harmless ms \<Longrightarrow>
   \<exists>d'. fold store_member ms (d, None) = (d', None) \<and> Slot d' = Slot d"
proof (induction ms arbitrary: d)
  case Nil
  show ?case by simp
next
  case (Cons kv ms)
  from Cons.prems have "harmless kv" and rest: "list_all harmless ms" by simp_all
  from store_member_harmless [OF this(1), of d] obtain d1 where
    d1: "store_member kv (d, None) = (d1, None)" "Slot d1 = Slot d" by blast
  from Cons.IH [OF rest, of d1] obtain d' where
    "fold store_member ms (d1, None) = (d', None)" "Slot d' = Slot d1" by blast
  with d1 show ?case by simp
qed

text \<open>
  C6, as stated, in its second half: a body without the field \<^verbatim>\<open>slot\<close> gives a decode error.
  It fails: the decoder leaves a field that the body does not mention at its zero value and
  reports nothing, so the body \<^verbatim>\<open>{"block":"0x01","state":"0x02"}\<close> decodes to an event of
  slot 0, and the handler sends that event.
\<close>

theorem missing_slot_counterexample:
  \<open>Unmarshal_HeadEventData (JObject [(''block'', JString ''0x01''), (''state'', JString ''0x02'')])
     = Inr \<lparr>Slot = 0, Block = ''0x01'', State = ''0x02''\<rparr>
   \<and> on_msg (json_Unmarshal example_scan) ''{"block":"0x01","state":"0x02"}''
     = [Send \<lparr>Slot = 0, Block = ''0x01'', State = ''0x02''\<rparr>]\<close>
  by (simp add: Unmarshal_defs equalFold_fields on_msg_def json_Unmarshal_def example_scan_def)

text \<open>
  C6, amended: a body of the expected shape, with the slot a string of decimal digits,
  decodes to the event of that slot, block and state, as do the body
  \<^verbatim>\<open>{"slot":"123","block":"0x01","state":"0x02"}\<close> and an event with further fields like the one
  quoted in the source. A body that is an object without the field \<^verbatim>\<open>slot\<close>, with strings or
  null for the other two fields, decodes without an error to an event of slot 0, and the
  handler sends it. A decode error is the result for a text that is not JSON, for a slot
  that is a JSON number and for a slot string that is not an unsigned decimal; the handler
  then only writes its log entry. The decoder is a total function: no body makes it panic.
\<close>

theorem Unmarshal_HeadEventData_shape:
  "Unmarshal_HeadEventData
     (JObject [(''slot'', JString (fmt_d (unat n))), (''block'', JString b), (''state'', JString s)])
     = Inr \<lparr>Slot = n, Block = b, State = s\<rparr>
   \<and> Unmarshal_HeadEventData
     (JObject [(''slot'', JString ''123''), (''block'', JString ''0x01''), (''state'', JString ''0x02'')])
     = Inr \<lparr>Slot = 123, Block = ''0x01'', State = ''0x02''\<rparr>
   \<and> Unmarshal_HeadEventData
     (JObject [(''slot'', JString ''827256''), (''block'', JString b), (''state'', JString s),
        (''epoch_transition'', JBool False), (''execution_optimistic'', JBool False)])
     = Inr \<lparr>Slot = 827256, Block = b, State = s\<rparr>
   \<and> (list_all harmless ms
        \<longrightarrow> (\<exists>d. Unmarshal_HeadEventData (JObject ms) = Inr d \<and> Slot d = 0))
   \<and> (scan body = Some (JObject ms) \<and> list_all harmless ms
        \<longrightarrow> (\<exists>d. on_msg (json_Unmarshal scan) body = [Send d] \<and> Slot d = 0))
   \<and> (scan body = None
        \<longrightarrow> on_msg (json_Unmarshal scan) body =
              [LogError (DecodeError ''json: syntax error'') ''could not unmarshal head event''])
   \<and> Unmarshal_HeadEventData
     (JObject [(''slot'', JNumber d), (''block'', JString b), (''state'', JString s)])
     = Inl (DecodeError ''json: invalid use of ,string struct tag'')
   \<and> Unmarshal_HeadEventData
     (JObject [(''slot'', JString ''-1''), (''block'', JString b), (''state'', JString s)])
     = Inl (DecodeError ''json: cannot unmarshal into uint64'')"
proof -
  have 1: "Unmarshal_HeadEventData
     (JObject [(''slot'', JString (fmt_d (unat n))), (''block'', JString b), (''state'', JString s)])
     = Inr \<lparr>Slot = n, Block = b, State = s\<rparr>"
    by (simp add: Unmarshal_defs equalFold_fields fmt_d_not_null ParseUint_fmt_d)
  have p: "ParseUint ''123'' = Some 123" "ParseUint ''827256'' = Some 827256"
    "ParseUint ''-1'' = None"
    by (simp_all add: ParseUint_def is_digit_def)
  have 2: "Unmarshal_HeadEventData
     (JObject [(''slot'', JString ''123''), (''block'', JString ''0x01''), (''state'', JString ''0x02'')])
     = Inr \<lparr>Slot = 123, Block = ''0x01'', State = ''0x02''\<rparr>"
    by (simp add: Unmarshal_defs equalFold_fields p)
  have 3: "Unmarshal_HeadEventData
     (JObject [(''slot'', JString ''827256''), (''block'', JString b), (''state'', JString s),
        (''epoch_transition'', JBool False), (''execution_optimistic'', JBool False)])
     = Inr \<lparr>Slot = 827256, Block = b, State = s\<rparr>"
    by (simp add: Unmarshal_defs equalFold_fields equalFold_others p)
  have 4: "\<exists>d. Unmarshal_HeadEventData (JObject ms) = Inr d \<and> Slot d = 0"
    if "list_all harmless ms"
  proof -
    from fold_store_member_harmless [OF that, of zero_HeadEventData] obtain d' where
      "fold store_member ms (zero_HeadEventData, None) = (d', None)"
      "Slot d' = Slot zero_HeadEventData" by blast
    then show ?thesis
      by (simp add: Unmarshal_HeadEventData_def zero_HeadEventData_def)
  qed
  have 5: "\<exists>d. on_msg (json_Unmarshal scan) body = [Send d] \<and> Slot d = 0"
    if "scan body = Some (JObject ms)" "list_all harmless ms"
  proof -
    from 4 [OF that(2)] obtain d where
      "Unmarshal_HeadEventData (JObject ms) = Inr d" "Slot d = 0" by blast
    with that(1) show ?thesis
      by (simp add: on_msg_def json_Unmarshal_def)
  qed
  have 6: "on_msg (json_Unmarshal scan) body =
             [LogError (DecodeError ''json: syntax error'') ''could not unmarshal head event'']"
    if "scan body = None"
    using that by (simp add: on_msg_def json_Unmarshal_def)
  have 7: "Unmarshal_HeadEventData
     (JObject [(''slot'', JNumber d), (''block'', JString b), (''state'', JString s)])
     = Inl (DecodeError ''json: invalid use of ,string struct tag'')"
    by (simp add: Unmarshal_defs equalFold_fields)
  have 8: "Unmarshal_HeadEventData
     (JObject [(''slot'', JString ''-1''), (''block'', JString b), (''state'', JString s)])
     = Inl (DecodeError ''json: cannot unmarshal into uint64'')"
    by (simp add: Unmarshal_defs equalFold_fields p)
  from 1 2 3 4 5 6 7 8 show ?thesis by blast
qed

theorem Unmarshal_HeadEventData_shape_witness:
  \<open>list_all harmless [(''block'', JString ''0x01''), (''state'', JString ''0x02'')]
   \<and> example_scan ''{"block":"0x01","state":"0x02"}''
       = Some (JObject [(''block'', JString ''0x01''), (''state'', JString ''0x02'')])
   \<and> (\<exists>d. on_msg (json_Unmarshal example_scan) ''{"block":"0x01","state":"0x02"}'' = [Send d]
          \<and> Slot d = 0)
   \<and> (\<exists>d. Unmarshal_HeadEventData
            (JObject [(''block'', JString ''0x01''), (''state'', JString ''0x02'')]) = Inr d
          \<and> Slot d = 0)
   \<and> example_scan ''{'' = None
   \<and> on_msg (json_Unmarshal example_scan) ''{'' =
       [LogError (DecodeError ''json: syntax error'') ''could not unmarshal head event'']\<close>
proof -
  define ms where "ms = [(''block'', JString ''0x01''), (''state'', JString ''0x02'')]"
  define body where \<open>body = ''{"block":"0x01","state":"0x02"}''\<close>
  have h1: "list_all harmless ms"
    by (simp add: ms_def harmless_def equalFold_fields)
  have h2: "example_scan body = Some (JObject ms)"
    by (simp add: example_scan_def ms_def body_def)
  have h3: "example_scan ''{'' = None"
    by (simp add: example_scan_def)
  note t = Unmarshal_HeadEventData_shape [where ms = ms and scan = example_scan]
  from t [where body = body] h1 h2
  have a: "\<exists>d. on_msg (json_Unmarshal example_scan) body = [Send d] \<and> Slot d = 0"
    by blast
  from t [where body = body] h1
  have b: "\<exists>d. Unmarshal_HeadEventData (JObject ms) = Inr d \<and> Slot d = 0"
    by blast
  from t [where body = "''{''"] h3
  have c: "on_msg (json_Unmarshal example_scan) ''{'' =
       [LogError (DecodeError ''json: syntax error'') ''could not unmarshal head event'']"
    by blast
  from h1 h2 a b h3 c show ?thesis
    unfolding ms_def body_def by (intro conjI)
qed

subsection \<open>The pointers that the accessors return\<close>

text \<open>
  C10: the ten accessors that return the response they have allocated return a pointer
  that is not nil whatever the fetch does, also with an error: they return the contents
  of the destination after the fetch together with the error of the fetch.
  \<^verbatim>\<open>SyncStatus\<close> and \<^verbatim>\<open>FetchValidators\<close> return nil whenever they return an error.
\<close>

theorem accessors_pointer_results:
  "fst (fst (GetProposerDuties w1 c epoch)) \<noteq> None
   \<and> fst (fst (GetHeader w2 c)) \<noteq> None
   \<and> fst (fst (GetHeaderForSlot w3 c slot)) \<noteq> None
   \<and> fst (fst (GetBlock w4 zero c blockID)) \<noteq> None
   \<and> fst (fst (GetBlockForSlot w5 zero c slot)) \<noteq> None
   \<and> fst (fst (GetGenesis w6 c)) \<noteq> None
   \<and> fst (fst (GetSpec w7 c)) \<noteq> None
   \<and> fst (fst (GetForkSchedule w8 c)) \<noteq> None
   \<and> fst (fst (GetRandao w9 c slot)) \<noteq> None
   \<and> fst (fst (GetWithdrawals w10 c slot)) \<noteq> None
   \<and> (snd (fst (SyncStatus w11 c)) \<noteq> None \<longrightarrow> fst (fst (SyncStatus w11 c)) = None)
   \<and> (\<forall>m e. fst (FetchValidators w12 c slot) = Returns (m, Some e) \<longrightarrow> m = None)"
proof -
  have 1: "fst (fst (GetProposerDuties w1 c epoch)) \<noteq> None"
    by (simp add: GetProposerDuties_def Let_def split_beta)
  have 2: "fst (fst (GetHeader w2 c)) \<noteq> None"
    by (simp add: GetHeader_def Let_def split_beta)
  have 3: "fst (fst (GetHeaderForSlot w3 c slot)) \<noteq> None"
    by (simp add: GetHeaderForSlot_def Let_def split_beta)
  have 4: "fst (fst (GetBlock w4 zero c blockID)) \<noteq> None"
    by (simp add: GetBlock_def Let_def split_beta)
  have 5: "fst (fst (GetBlockForSlot w5 zero c slot)) \<noteq> None"
    by (simp add: GetBlockForSlot_def Let_def split_beta)
  have 6: "fst (fst (GetGenesis w6 c)) \<noteq> None"
    by (simp add: GetGenesis_def Let_def split_beta)
  have 7: "fst (fst (GetSpec w7 c)) \<noteq> None"
    by (simp add: GetSpec_def Let_def split_beta)
  have 8: "fst (fst (GetForkSchedule w8 c)) \<noteq> None"
    by (simp add: GetForkSchedule_def Let_def split_beta)
  have 9: "fst (fst (GetRandao w9 c slot)) \<noteq> None"
    by (simp add: GetRandao_def Let_def split_beta)
  have 10: "fst (fst (GetWithdrawals w10 c slot)) \<noteq> None"
    by (simp add: GetWithdrawals_def Let_def split_beta)
  have 11: "snd (fst (SyncStatus w11 c)) \<noteq> None \<longrightarrow> fst (fst (SyncStatus w11 c)) = None"
    by (simp add: SyncStatus_def Let_def split_beta split: option.splits)
  have 12: "\<forall>m e. fst (FetchValidators w12 c slot) = Returns (m, Some e) \<longrightarrow> m = None"
    by (auto simp: FetchValidators_def Let_def split_beta split: option.splits)
  from 1 2 3 4 5 6 7 8 9 10 11 12 show ?thesis by (intro conjI)
qed

theorem accessors_pointer_results_witness:
  "snd (fst (SyncStatus (failing (TransportError ''connection refused'')) example_instance))
     = Some (TransportError ''connection refused'')
   \<and> fst (fst (SyncStatus (failing (TransportError ''connection refused'')) example_instance)) = None
   \<and> fst (FetchValidators (failing (TransportError ''connection refused'')) example_instance 5)
     = Returns (None, Some (TransportError ''connection refused''))
   \<and> fst (GetProposerDuties (failing (TransportError ''connection refused'')) example_instance 9)
     = (Some new_ProposerDutiesResponse, Some (TransportError ''connection refused''))
   \<and> fst (GetBlock (failing (TransportError ''connection refused'')) () example_instance ''head'')
     = (Some (new_GetBlockResponse ()), Some (TransportError ''connection refused''))"
proof -
  define e where "e = TransportError ''connection refused''"
  have h: "snd (fst (SyncStatus (failing e) example_instance)) = Some e"
    by (simp add: SyncStatus_def fetchBeacon_def failing_def)
  have f: "\<exists>m. fst (FetchValidators (failing e) example_instance 5) = Returns (m, Some e)"
    by (simp add: FetchValidators_def fetchAllValidators_def fetchBeacon_def failing_def)
  have d: "snd (fst (GetProposerDuties (failing e) example_instance 9)) = Some e"
    "snd (fst (GetBlock (failing e) () example_instance ''head'')) = Some e"
    "the (fst (fst (GetProposerDuties (failing e) example_instance 9))) = new_ProposerDutiesResponse"
    "the (fst (fst (GetBlock (failing e) () example_instance ''head''))) = new_GetBlockResponse ()"
    by (simp_all add: GetProposerDuties_def GetBlock_def fetchBeacon_def failing_def Let_def)
  note t = accessors_pointer_results
    [where ?w1.0 = "failing e" and ?w2.0 = "failing e" and ?w3.0 = "failing e"
       and ?w4.0 = "failing e" and ?w5.0 = "failing e" and ?w6.0 = "failing e"
       and ?w7.0 = "failing e" and ?w8.0 = "failing e" and ?w9.0 = "failing e"
       and ?w10.0 = "failing e :: unit GetWithdrawalsResponse beacon"
       and ?w11.0 = "failing e" and ?w12.0 = "failing e"
       and c = example_instance and epoch = 9 and slot = 5
       and zero = "()" and blockID = "''head''"]
  from t h have 1: "fst (fst (SyncStatus (failing e) example_instance)) = None"
    by simp
  from t f have 2: "fst (FetchValidators (failing e) example_instance 5) = Returns (None, Some e)"
    by blast
  from t d have 3: "fst (GetProposerDuties (failing e) example_instance 9)
     = (Some new_ProposerDutiesResponse, Some e)"
    by (cases "fst (GetProposerDuties (failing e) example_instance 9)") auto
  from t d have 4: "fst (GetBlock (failing e) () example_instance ''head'')
     = (Some (new_GetBlockResponse ()), Some e)"
    by (cases "fst (GetBlock (failing e) () example_instance ''head'')") auto
  from h 1 2 3 4 show ?thesis
    unfolding e_def by (intro conjI)
qed

end
